theory Spec2Isabelle
  imports Main "HOL-Library.Word"
begin

unbundle bit_operations_syntax

section \<open>The WASIX POSIX shims: \<open>ttyname_r\<close>, \<open>pthread_setname_np\<close>, \<open>sigset_t\<close>\<close>

text \<open>
  A shallow embedding of three files of the WASIX libc:
  \<^item> \<^verbatim>\<open>libc-top-half/musl/src/unistd/ttyname_r.c\<close>,
  \<^item> \<^verbatim>\<open>libc-top-half/musl/src/thread/pthread_setname_np.c\<close>,
  \<^item> \<^verbatim>\<open>libc-bottom-half/headers/public/sys/select.h\<close>.

  C \<open>int\<close> values that are only compared are \<open>int\<close>, a \<open>size_t\<close> that is only counted
  down is \<open>nat\<close>, a \<open>uint8_t\<close> is an \<open>8 word\<close>, a \<open>uint32_t\<close> a \<open>32 word\<close>. Bytes of C
  strings are \<open>char\<close> (8 bits), so a C string literal is a \<open>string\<close> followed by \<open>NUL\<close>.
\<close>

subsection \<open>\<open>ttyname_r.c\<close>: data\<close>

type_synonym wasi_bool_t = "8 word"

definition WASI_BOOL_FALSE :: wasi_bool_t where
  "WASI_BOOL_FALSE = 0"

definition WASI_BOOL_TRUE :: wasi_bool_t where
  "WASI_BOOL_TRUE = 1"

text \<open>\<open>struct __wasi_tty_t\<close> (lines 18 to 64), field by field.\<close>

record wasi_tty_t =
  cols :: "32 word"
  rows :: "32 word"
  width :: "32 word"
  height :: "32 word"
  stdin_tty :: wasi_bool_t
  stdout_tty :: wasi_bool_t
  stderr_tty :: wasi_bool_t
  echo :: wasi_bool_t
  line_buffered :: wasi_bool_t

text \<open>
  The host import \<open>__wasi_tty_get(&tty)\<close> is outside the program: one call is its reply,
  the returned code together with the contents of \<open>tty\<close> after the call.
\<close>

type_synonym tty_get_reply = "int \<times> wasi_tty_t"

text \<open>
  Modelled from the spec: \<open>ENOTTY\<close> comes from \<open>errno.h\<close>, which is not among the
  sources. The spec asks for a "positive POSIX-style error code"; the value is the one of
  the WASI ABI (\<open>__WASI_ERRNO_NOTTY\<close>). No theorem below depends on the number, only on
  its being nonzero.
\<close>

definition ENOTTY :: int where
  "ENOTTY = 59"

text \<open>
  The caller's buffer is the memory at \<open>name[0]\<close>, \<open>name[1]\<close>, ...: a function from the
  offset to the byte there. The function is total, so bytes beyond the capacity the
  caller announced are part of the model, and a write there would show.
\<close>

type_synonym buffer = "nat \<Rightarrow> char"

definition NUL :: char where
  "NUL = CHR 0x00"

text \<open>
  Modelled from the spec: \<open>strncpy\<close> is a libc function that is not among the sources;
  the spec only says that the path is written "bounded by the supplied capacity". The
  definition is the contract of ISO C (7.24.2.4): exactly \<open>n\<close> bytes of \<open>d\<close> are written,
  the first \<open>min n (length s)\<close> from the string \<open>s\<close>, the rest \<open>NUL\<close>; so no \<open>NUL\<close> is
  written when \<open>n \<le> length s\<close>, and nothing at all when \<open>n = 0\<close>.
\<close>

definition strncpy :: "buffer \<Rightarrow> string \<Rightarrow> nat \<Rightarrow> buffer" where
  "strncpy d s n = (\<lambda>i. if i < n then (if i < length s then s ! i else NUL) else d i)"

text \<open>The state \<open>ttyname_r\<close> can touch: \<open>errno\<close> and the caller's buffer \<open>name\<close>.\<close>

record tty_state =
  errno :: int
  name :: buffer

subsection \<open>\<open>ttyname_r.c\<close>: the function (lines 67 to 111, the WASI branch)\<close>

text \<open>
  \<^verbatim>\<open>
  __wasi_tty_t tty;
  int r = __wasi_tty_get(&tty);
  if (r != 0) { errno = r; return 0; }
  if (fd == 0 && tty.stdin_tty == __WASI_BOOL_TRUE)  { strncpy(name, "/dev/stdin", size);  return 0; }
  if (fd == 1 && tty.stdout_tty == __WASI_BOOL_TRUE) { strncpy(name, "/dev/stdout", size); return 0; }
  if (fd == 2 && tty.stderr_tty == __WASI_BOOL_TRUE) { strncpy(name, "/dev/stderr", size); return 0; }
  return ENOTTY;
  \<close>
  The result is the returned \<open>int\<close> and the state after the call; the parameter
  \<open>size\<close> is \<open>sz\<close> here.

  Lines 70 to 89, under \<open>#ifdef __wasilibc_unmodified_upstream\<close>, are the body of musl
  for Linux (\<open>isatty\<close>, \<open>readlink\<close>, \<open>stat\<close>), which is not compiled here. It returns
  \<open>errno\<close> when a call fails, answers a buffer that is too small with \<open>ERANGE\<close>
  (\<^verbatim>\<open>else if (l == size) return ERANGE;\<close>) and writes the terminator itself
  (\<^verbatim>\<open>name[l] = 0;\<close>). The WASI body has neither check.
\<close>

definition ttyname_r :: "tty_get_reply \<Rightarrow> int \<Rightarrow> nat \<Rightarrow> tty_state \<Rightarrow> int \<times> tty_state" where
  "ttyname_r host fd sz s =
     (let r = fst host; tty = snd host in
      if r \<noteq> 0 then (0, s\<lparr>errno := r\<rparr>)
      else if fd = 0 \<and> stdin_tty tty = WASI_BOOL_TRUE
        then (0, s\<lparr>name := strncpy (name s) ''/dev/stdin'' sz\<rparr>)
      else if fd = 1 \<and> stdout_tty tty = WASI_BOOL_TRUE
        then (0, s\<lparr>name := strncpy (name s) ''/dev/stdout'' sz\<rparr>)
      else if fd = 2 \<and> stderr_tty tty = WASI_BOOL_TRUE
        then (0, s\<lparr>name := strncpy (name s) ''/dev/stderr'' sz\<rparr>)
      else (ENOTTY, s))"

text \<open>
  Reading the buffer back as a C string: the bytes before the first \<open>NUL\<close> among the
  first \<open>n\<close> bytes, or \<open>None\<close> when none of the first \<open>n\<close> bytes is \<open>NUL\<close>.
\<close>

fun c_str_from :: "buffer \<Rightarrow> nat \<Rightarrow> nat \<Rightarrow> string option" where
  "c_str_from m i 0 = None"
| "c_str_from m i (Suc n) =
     (if m i = NUL then Some []
      else (case c_str_from m (Suc i) n of None \<Rightarrow> None | Some cs \<Rightarrow> Some (m i # cs)))"

definition c_str :: "buffer \<Rightarrow> nat \<Rightarrow> string option" where
  "c_str m n = c_str_from m 0 n"

text \<open>Concrete inputs for the examples: a terminal record and a buffer full of \<open>x\<close>.\<close>

definition tty_all :: "wasi_bool_t \<Rightarrow> wasi_tty_t" where
  "tty_all b = \<lparr>cols = 80, rows = 24, width = 640, height = 480,
     stdin_tty = b, stdout_tty = b, stderr_tty = b,
     echo = WASI_BOOL_TRUE, line_buffered = WASI_BOOL_TRUE\<rparr>"

definition st0 :: tty_state where
  "st0 = \<lparr>errno = 0, name = (\<lambda>_. CHR ''x'')\<rparr>"

subsection \<open>\<open>pthread_setname_np.c\<close>: data and host\<close>

text \<open>
  Modelled from the spec: \<open>ERANGE\<close> (from \<open>errno.h\<close>) and \<open>PTHREAD_CANCEL_DISABLE\<close>
  (from \<open>pthread.h\<close>) are not among the sources. The spec speaks of "a length-exceeded
  error code"; the numbers are those of the WASI ABI and of musl, and no theorem below
  depends on them.
\<close>

definition ERANGE :: int where
  "ERANGE = 68"

definition PTHREAD_CANCEL_DISABLE :: int where
  "PTHREAD_CANCEL_DISABLE = 1"

text \<open>
  A \<open>pthread_t\<close> points to the thread's \<open>struct pthread\<close>, of which the function reads
  \<open>tid\<close>; two handles are equal when they are the same thread.
\<close>

record pthread =
  tid :: int

text \<open>
  The upstream branch talks to the operating system. Each call it issues is appended to
  a log, and the replies of the system are a parameter: the value each call returns and
  the \<open>errno\<close> it leaves when it fails.
\<close>

datatype host_call =
    Prctl_set_name string
  | Open_wronly string
  | Write int string
  | Close int

record host_os =
  prctl_ret :: int
  prctl_errno :: int
  open_ret :: int
  open_errno :: int
  write_ret :: int
  write_errno :: int
  close_ret :: int
  close_errno :: int

record thread_state =
  t_errno :: int
  cancelstate :: int
  calls :: "host_call list"

definition sys_prctl :: "host_os \<Rightarrow> string \<Rightarrow> thread_state \<Rightarrow> int \<times> thread_state" where
  "sys_prctl h nm s =
     (prctl_ret h,
      s\<lparr>calls := calls s @ [Prctl_set_name nm],
        t_errno := (if prctl_ret h \<noteq> 0 then prctl_errno h else t_errno s)\<rparr>)"

definition sys_open :: "host_os \<Rightarrow> string \<Rightarrow> thread_state \<Rightarrow> int \<times> thread_state" where
  "sys_open h f s =
     (open_ret h,
      s\<lparr>calls := calls s @ [Open_wronly f],
        t_errno := (if open_ret h < 0 then open_errno h else t_errno s)\<rparr>)"

definition sys_write :: "host_os \<Rightarrow> int \<Rightarrow> string \<Rightarrow> thread_state \<Rightarrow> int \<times> thread_state" where
  "sys_write h fd bs s =
     (write_ret h,
      s\<lparr>calls := calls s @ [Write fd bs],
        t_errno := (if write_ret h < 0 then write_errno h else t_errno s)\<rparr>)"

definition sys_close :: "host_os \<Rightarrow> int \<Rightarrow> thread_state \<Rightarrow> int \<times> thread_state" where
  "sys_close h fd s =
     (close_ret h,
      s\<lparr>calls := calls s @ [Close fd],
        t_errno := (if close_ret h < 0 then close_errno h else t_errno s)\<rparr>)"

text \<open>
  Modelled from the spec: \<open>strnlen\<close> and \<open>snprintf\<close> are libc functions that are not
  among the sources; the spec only gives the bound of 15 characters. \<open>strnlen s n\<close> is
  the length of the C string \<open>s\<close>, at most \<open>n\<close>. \<open>snprintf(f, n, "/proc/self/task/%d/comm", t)\<close>
  leaves in \<open>f\<close> the first \<open>n - 1\<close> characters of the formatted text, \<open>%d\<close> being the
  decimal digits of \<open>t\<close> with a minus sign when \<open>t\<close> is negative.
\<close>

definition strnlen :: "string \<Rightarrow> nat \<Rightarrow> nat" where
  "strnlen s n = min (length s) n"

fun digits10 :: "nat \<Rightarrow> string" where
  "digits10 n =
     (if n < 10 then [char_of (48 + n)]
      else digits10 (n div 10) @ [char_of (48 + n mod 10)])"

declare digits10.simps [simp del]

definition fmt_d :: "int \<Rightarrow> string" where
  "fmt_d i = (if i < 0 then CHR ''-'' # digits10 (nat (- i)) else digits10 (nat i))"

definition snprintf_comm :: "nat \<Rightarrow> int \<Rightarrow> string" where
  "snprintf_comm n t = take (n - 1) (''/proc/self/task/'' @ fmt_d t @ ''/comm'')"

text \<open>
  \<open>sizeof f\<close>, for \<open>char f[sizeof "/proc/self/task//comm" + 3*sizeof(int)]\<close>: the literal
  has 21 characters and its \<open>NUL\<close>, an \<open>int\<close> has 4 bytes.
\<close>

definition sizeof_f :: nat where
  "sizeof_f = 22 + 3 * 4"

subsection \<open>\<open>pthread_setname_np.c\<close>: the two variants\<close>

text \<open>
  Lines 12 to 29, compiled when \<open>__wasilibc_unmodified_upstream\<close> is defined:
  \<^verbatim>\<open>
  if ((len = strnlen(name, 16)) > 15) return ERANGE;
  if (thread == pthread_self())
      return prctl(PR_SET_NAME, (unsigned long)name, 0UL, 0UL, 0UL) ? errno : 0;
  snprintf(f, sizeof f, "/proc/self/task/%d/comm", thread->tid);
  pthread_setcancelstate(PTHREAD_CANCEL_DISABLE, &cs);
  if ((fd = open(f, O_WRONLY)) < 0 || write(fd, name, len) < 0) status = errno;
  if (fd >= 0) close(fd);
  pthread_setcancelstate(cs, 0);
  return status;
  \<close>
  \<open>self\<close> is the value of \<open>pthread_self()\<close>, \<open>nm\<close> the C string \<open>name\<close> points to.
\<close>

definition pthread_setname_np_upstream ::
  "host_os \<Rightarrow> pthread \<Rightarrow> pthread \<Rightarrow> string \<Rightarrow> thread_state \<Rightarrow> int \<times> thread_state" where
  "pthread_setname_np_upstream h self thread nm s =
     (let len = strnlen nm 16 in
      if len > 15 then (ERANGE, s)
      else if thread = self then
        (let (r, s1) = sys_prctl h nm s in (if r \<noteq> 0 then t_errno s1 else 0, s1))
      else
        (let f = snprintf_comm sizeof_f (tid thread);
             cs = cancelstate s;
             s1 = s\<lparr>cancelstate := PTHREAD_CANCEL_DISABLE\<rparr>;
             (fd, s2) = sys_open h f s1;
             (status, s3) =
               (if fd < 0 then (t_errno s2, s2)
                else (let (w, s3) = sys_write h fd (take len nm) s2
                      in (if w < 0 then t_errno s3 else 0, s3)));
             s4 = (if fd \<ge> 0 then snd (sys_close h fd s3) else s3);
             s5 = s4\<lparr>cancelstate := cs\<rparr>
         in (status, s5)))"

text \<open>
  The file selects one of two bodies with \<open>#ifdef __wasilibc_unmodified_upstream\<close>; the
  other one (lines 31 to 34) is \<^verbatim>\<open>return 0;\<close>. The flag is the first argument.
\<close>

definition pthread_setname_np ::
  "bool \<Rightarrow> host_os \<Rightarrow> pthread \<Rightarrow> pthread \<Rightarrow> string \<Rightarrow> thread_state \<Rightarrow> int \<times> thread_state" where
  "pthread_setname_np wasilibc_unmodified_upstream h self thread nm s =
     (if wasilibc_unmodified_upstream then pthread_setname_np_upstream h self thread nm s
      else (0, s))"

text \<open>Concrete inputs for the examples: a system where every call succeeds.\<close>

definition host_ok :: host_os where
  "host_ok = \<lparr>prctl_ret = 0, prctl_errno = 0, open_ret = 3, open_errno = 0,
     write_ret = 4, write_errno = 0, close_ret = 0, close_errno = 0\<rparr>"

definition ts0 :: thread_state where
  "ts0 = \<lparr>t_errno = 0, cancelstate = 0, calls = []\<rparr>"

subsection \<open>\<open>sys/select.h\<close>: the signal set\<close>

text \<open>
  Lines 12 to 14. \<open>_NSIG_WORDS\<close> is \<open>_NSIG / _NSIG_BPW\<close>, the division of C on
  positive integers, which rounds down.
\<close>

definition NSIG :: nat where
  "NSIG = 65"

definition NSIG_BPW :: nat where
  "NSIG_BPW = 32"

definition NSIG_WORDS :: nat where
  "NSIG_WORDS = NSIG div NSIG_BPW"

text \<open>
  Lines 16 to 19: a union of two arrays of \<open>_NSIG_WORDS\<close> words, \<open>sig\<close> and \<open>__bits\<close>,
  on the same storage. An \<open>unsigned long\<close> has 32 bits on the 32-bit WebAssembly target,
  the width \<open>_NSIG_BPW\<close> names. The storage is one list of words, and the second member
  is another name for the first.
\<close>

type_synonym ulong = "32 word"

datatype sigset_t = Sigset_t (sig: "ulong list")

abbreviation bits :: "sigset_t \<Rightarrow> ulong list" where
  "bits \<equiv> sig"

text \<open>
  Modelled from the spec: the operations on a signal set (the bodies of \<open>sigemptyset\<close>,
  \<open>sigaddset\<close>, \<open>sigismember\<close>) are not among the sources. The spec speaks of "a fresh
  zero signal-set" and of "setting" and "testing bit \<open>i\<close>" of the "ordered sequence of
  fixed-width words": bit \<open>i\<close> is bit \<open>i mod _NSIG_BPW\<close> of word \<open>i / _NSIG_BPW\<close>. An
  index beyond the array is an access out of bounds in C; here it is \<open>None\<close>.
\<close>

definition sigset_zero :: sigset_t where
  "sigset_zero = Sigset_t (replicate NSIG_WORDS 0)"

definition sigset_set :: "sigset_t \<Rightarrow> nat \<Rightarrow> sigset_t option" where
  "sigset_set s i =
     (let w = i div NSIG_BPW in
      if w < NSIG_WORDS
      then Some (Sigset_t ((sig s)[w := (sig s ! w) OR push_bit (i mod NSIG_BPW) 1]))
      else None)"

definition sigset_test :: "sigset_t \<Rightarrow> nat \<Rightarrow> bool option" where
  "sigset_test s j =
     (let w = j div NSIG_BPW in
      if w < NSIG_WORDS
      then Some ((sig s ! w) AND push_bit (j mod NSIG_BPW) 1 \<noteq> 0)
      else None)"

subsection \<open>\<open>sys/select.h\<close>: \<open>pselect\<close>\<close>

text \<open>
  Modelled from the spec: line 21 declares \<open>pselect\<close>, and its body is not among the
  sources, nor are \<open>fd_set\<close> and \<open>struct timespec\<close>. What follows is sections 4.1, 5 and
  6 of the spec.
  \<^item> A descriptor set is the list of its members; a null pointer is \<open>None\<close> ("no
    descriptors of that class are watched", "block indefinitely", "do not alter the
    active mask").
  \<^item> The signal state of the caller is the active mask, whether the caller is waiting,
    the signals that are pending and the signals that were delivered, in order. A mask
    blocks the signals whose bit is set. A signal raised for the caller is delivered
    when the active mask does not block it and stays pending while it does; a pending
    signal is delivered once the active mask stops blocking it. This is what lets a
    signal be "missed between unmasking and blocking".
\<close>

type_synonym fd_set = "int list"

record timespec =
  tv_sec :: int
  tv_nsec :: int

record sig_state =
  mask :: sigset_t
  waiting :: bool
  pending :: "nat list"
  delivered :: "nat list"
  sel_errno :: int

definition blocked :: "sigset_t \<Rightarrow> nat \<Rightarrow> bool" where
  "blocked m n = (sigset_test m n = Some True)"

definition deliver_unblocked :: "sig_state \<Rightarrow> sig_state" where
  "deliver_unblocked p =
     p\<lparr>delivered := delivered p @ filter (\<lambda>n. \<not> blocked (mask p) n) (pending p),
       pending := filter (blocked (mask p)) (pending p)\<rparr>"

definition raise_sig :: "nat \<Rightarrow> sig_state \<Rightarrow> sig_state" where
  "raise_sig n p = deliver_unblocked (p\<lparr>pending := pending p @ [n]\<rparr>)"

text \<open>
  Modelled from the spec: the two steps of the caller. \<open>pselect_begin\<close> installs the
  mask and begins to wait, in one step ("installed as part of the same atomic step that
  begins waiting"); with a null mask it only begins to wait. \<open>pselect_end\<close> ends the
  wait and puts the saved mask back, in one step ("restored as part of the same atomic
  step that ends waiting"); a failing call leaves its error code in \<open>errno\<close> ("-1 with
  an error code set").
\<close>

definition pselect_begin :: "sigset_t option \<Rightarrow> sig_state \<Rightarrow> sig_state" where
  "pselect_begin sigmask p =
     deliver_unblocked
       (p\<lparr>mask := (case sigmask of None \<Rightarrow> mask p | Some m \<Rightarrow> m), waiting := True\<rparr>)"

definition pselect_end :: "sigset_t \<Rightarrow> int option \<Rightarrow> sig_state \<Rightarrow> sig_state" where
  "pselect_end saved err q =
     deliver_unblocked
       (q\<lparr>mask := saved, waiting := False,
          sel_errno := (case err of None \<Rightarrow> sel_errno q | Some e \<Rightarrow> e)\<rparr>)"

text \<open>
  Modelled from the spec: one run of a call. Between the two steps of the caller the
  host raises the signals \<open>sigs\<close>, one after the other; \<open>wait_states\<close> is the state of
  the caller before the first and after each of them. \<open>pselect_run\<close> is every state
  from the call to the return: the state at the call, the states of the wait, the state
  at the return.
\<close>

fun wait_states :: "nat list \<Rightarrow> sig_state \<Rightarrow> sig_state list" where
  "wait_states [] q = [q]"
| "wait_states (n # ns) q = q # wait_states ns (raise_sig n q)"

definition pselect_run ::
  "sigset_t option \<Rightarrow> nat list \<Rightarrow> int option \<Rightarrow> sig_state \<Rightarrow> sig_state list" where
  "pselect_run sigmask sigs err p =
     (let ws = wait_states sigs (pselect_begin sigmask p)
      in p # ws @ [pselect_end (mask p) err (last ws)])"

text \<open>
  Modelled from the spec: how the host ends the wait. It "signals readiness" of some
  descriptors, "the timeout fires", or the host call fails with an error code (section
  7: host failures become POSIX error codes).
\<close>

datatype wake = Fds_ready "int \<Rightarrow> bool" | Timer_fired | Host_error int

definition ready_subset :: "int \<Rightarrow> (int \<Rightarrow> bool) \<Rightarrow> fd_set option \<Rightarrow> fd_set option" where
  "ready_subset nfds ready fds =
     map_option (filter (\<lambda>fd. 0 \<le> fd \<and> fd < nfds \<and> ready fd)) fds"

definition fd_count :: "fd_set option \<Rightarrow> nat" where
  "fd_count fds = (case fds of None \<Rightarrow> 0 | Some xs \<Rightarrow> length xs)"

record pselect_out =
  ret :: int
  readfds :: "fd_set option"
  writefds :: "fd_set option"
  exceptfds :: "fd_set option"
  trace :: "sig_state list"
  after :: sig_state

definition pselect_return ::
  "int \<Rightarrow> fd_set option \<Rightarrow> fd_set option \<Rightarrow> fd_set option \<Rightarrow> sig_state list \<Rightarrow>
   pselect_out" where
  "pselect_return n r w e tr =
     \<lparr>ret = n, readfds = r, writefds = w, exceptfds = e, trace = tr, after = last tr\<rparr>"

text \<open>
  Modelled from the spec: \<open>pselect\<close>. The result is \<open>None\<close> when the call does not
  return: readiness of descriptors none of which is watched does not end the wait, and
  no timeout fires when the timeout is null. A call that returns yields "the count of
  ready descriptors across all sets", each set holding "only the ready descriptors from
  its original membership" (none of them after a timeout), or -1 with the error code in
  \<open>errno\<close> and the sets as they were. The state \<open>after\<close> the call is the last state of
  the run.
\<close>

definition pselect ::
  "wake \<Rightarrow> nat list \<Rightarrow> int \<Rightarrow> fd_set option \<Rightarrow> fd_set option \<Rightarrow> fd_set option \<Rightarrow>
   timespec option \<Rightarrow> sigset_t option \<Rightarrow> sig_state \<Rightarrow> pselect_out option" where
  "pselect wake sigs nfds rfds wfds efds timeout sigmask p =
     (case wake of
        Fds_ready ready \<Rightarrow>
          (let r = ready_subset nfds ready rfds;
               w = ready_subset nfds ready wfds;
               e = ready_subset nfds ready efds;
               n = fd_count r + fd_count w + fd_count e
           in if n = 0 then None
              else Some (pselect_return (int n) r w e (pselect_run sigmask sigs None p)))
      | Timer_fired \<Rightarrow>
          (if timeout = None then None
           else Some (pselect_return 0 (map_option (\<lambda>_. []) rfds)
                        (map_option (\<lambda>_. []) wfds) (map_option (\<lambda>_. []) efds)
                        (pselect_run sigmask sigs None p)))
      | Host_error err \<Rightarrow>
          Some (pselect_return (- 1) rfds wfds efds (pselect_run sigmask sigs (Some err) p)))"

text \<open>The wait ends: by readiness of a watched descriptor, by timeout, or by an error.\<close>

definition wait_ends ::
  "wake \<Rightarrow> int \<Rightarrow> fd_set option \<Rightarrow> fd_set option \<Rightarrow> fd_set option \<Rightarrow> timespec option \<Rightarrow>
   bool" where
  "wait_ends wake nfds rfds wfds efds timeout =
     (case wake of
        Fds_ready ready \<Rightarrow>
          0 < fd_count (ready_subset nfds ready rfds) + fd_count (ready_subset nfds ready wfds)
                + fd_count (ready_subset nfds ready efds)
      | Timer_fired \<Rightarrow> timeout \<noteq> None
      | Host_error err \<Rightarrow> True)"

text \<open>
  Concrete inputs for the examples: no signal blocked and none pending, and a mask that
  blocks signal 2.
\<close>

definition p0 :: sig_state where
  "p0 = \<lparr>mask = sigset_zero, waiting = False, pending = [], delivered = [], sel_errno = 0\<rparr>"

definition m1 :: sigset_t where
  "m1 = Sigset_t [4, 0]"

section \<open>Theorems\<close>

subsection \<open>\<open>strncpy\<close> and the buffer\<close>

lemma strncpy_frame: "n \<le> i \<Longrightarrow> strncpy d s n i = d i"
  by (simp add: strncpy_def)

lemma strncpy_zero: "strncpy d s 0 = d"
  by (simp add: strncpy_def)

lemma c_str_from_strncpy:
  "i \<le> length p \<Longrightarrow> length p < i + n \<Longrightarrow> i + n \<le> sz \<Longrightarrow> NUL \<notin> set p \<Longrightarrow>
   c_str_from (strncpy d p sz) i n = Some (drop i p)"
proof (induction n arbitrary: i)
  case 0
  then show ?case by simp
next
  case (Suc n)
  show ?case
  proof (cases "i = length p")
    case True
    with Suc.prems show ?thesis by (simp add: strncpy_def)
  next
    case False
    with Suc.prems have lt: "i < length p" by simp
    then have "p ! i \<noteq> NUL" using Suc.prems(4) by (metis nth_mem)
    moreover have "c_str_from (strncpy d p sz) (Suc i) n = Some (drop (Suc i) p)"
      using Suc.prems lt by (intro Suc.IH) simp_all
    moreover have "strncpy d p sz i = p ! i"
      using lt Suc.prems by (simp add: strncpy_def)
    ultimately show ?thesis using lt by (simp add: Cons_nth_drop_Suc)
  qed
qed

lemma c_str_from_strncpy_short:
  "i + n \<le> sz \<Longrightarrow> sz \<le> length p \<Longrightarrow> NUL \<notin> set p \<Longrightarrow>
   c_str_from (strncpy d p sz) i n = None"
proof (induction n arbitrary: i)
  case 0
  then show ?case by simp
next
  case (Suc n)
  then have lt: "i < length p" by simp
  then have "p ! i \<noteq> NUL" using Suc.prems(3) by (metis nth_mem)
  moreover have "strncpy d p sz i = p ! i"
    using lt Suc.prems by (simp add: strncpy_def)
  moreover have "c_str_from (strncpy d p sz) (Suc i) n = None"
    using Suc.prems by (intro Suc.IH) simp_all
  ultimately show ?case by simp
qed

text \<open>
  A path that fits with its terminator is read back whole; one that does not fit leaves
  no \<open>NUL\<close> within the capacity.
\<close>

lemma c_str_strncpy:
  "length p < sz \<Longrightarrow> NUL \<notin> set p \<Longrightarrow> c_str (strncpy d p sz) sz = Some p"
  using c_str_from_strncpy [of 0 p sz sz d] by (simp add: c_str_def)

lemma c_str_strncpy_short:
  "sz \<le> length p \<Longrightarrow> NUL \<notin> set p \<Longrightarrow> c_str (strncpy d p sz) sz = None"
  using c_str_from_strncpy_short [of 0 sz sz p d] by (simp add: c_str_def)

subsection \<open>\<open>ttyname_r\<close>\<close>

text \<open>
  What the three success branches do, by capacity: with room for the path and its
  terminator the buffer holds the path as a C string; with less, the function still
  returns 0 and the buffer holds no terminator within the capacity.
\<close>

lemma ttyname_r_stdin_fits:
  "10 < sz \<Longrightarrow> stdin_tty tty = WASI_BOOL_TRUE \<Longrightarrow>
   fst (ttyname_r (0, tty) 0 sz s) = 0 \<and>
   c_str (name (snd (ttyname_r (0, tty) 0 sz s))) sz = Some ''/dev/stdin''"
  by (simp add: ttyname_r_def c_str_strncpy NUL_def)

lemma ttyname_r_stdout_fits:
  "11 < sz \<Longrightarrow> stdout_tty tty = WASI_BOOL_TRUE \<Longrightarrow>
   fst (ttyname_r (0, tty) 1 sz s) = 0 \<and>
   c_str (name (snd (ttyname_r (0, tty) 1 sz s))) sz = Some ''/dev/stdout''"
  by (simp add: ttyname_r_def c_str_strncpy NUL_def)

lemma ttyname_r_stderr_fits:
  "11 < sz \<Longrightarrow> stderr_tty tty = WASI_BOOL_TRUE \<Longrightarrow>
   fst (ttyname_r (0, tty) 2 sz s) = 0 \<and>
   c_str (name (snd (ttyname_r (0, tty) 2 sz s))) sz = Some ''/dev/stderr''"
  by (simp add: ttyname_r_def c_str_strncpy NUL_def)

lemma ttyname_r_stdin_truncated:
  "sz \<le> 10 \<Longrightarrow> stdin_tty tty = WASI_BOOL_TRUE \<Longrightarrow>
   fst (ttyname_r (0, tty) 0 sz s) = 0 \<and>
   c_str (name (snd (ttyname_r (0, tty) 0 sz s))) sz = None"
  by (simp add: ttyname_r_def c_str_strncpy_short NUL_def)

lemma ttyname_r_stdin_11:
  "fst (ttyname_r (0, tty_all WASI_BOOL_TRUE) 0 11 st0) = 0 \<and>
   c_str (name (snd (ttyname_r (0, tty_all WASI_BOOL_TRUE) 0 11 st0))) 11 = Some ''/dev/stdin''"
  using ttyname_r_stdin_fits [of 11 "tty_all WASI_BOOL_TRUE" st0]
  by (simp add: tty_all_def)

lemma ttyname_r_capacity_zero_no_write:
  "name (snd (ttyname_r host fd 0 s)) = name s"
  by (simp add: ttyname_r_def Let_def strncpy_zero)

text \<open>
  C1. The claim: when the host query fails, \<open>ttyname_r\<close> returns a positive error code
  and not 0. The code at such an input: the query returns 8, and \<open>ttyname_r\<close> returns 0,
  the value of success, with the code 8 left in \<open>errno\<close> and the buffer as it was.
\<close>

theorem ttyname_r_host_failure_returns_zero:
  "fst (ttyname_r (8, tty_all WASI_BOOL_FALSE) 0 64 st0) = 0 \<and>
   errno (snd (ttyname_r (8, tty_all WASI_BOOL_FALSE) 0 64 st0)) = 8 \<and>
   name (snd (ttyname_r (8, tty_all WASI_BOOL_FALSE) 0 64 st0)) = name st0 \<and>
   ENOTTY \<noteq> 0"
  by (simp add: ttyname_r_def ENOTTY_def)

text \<open>
  C4. The claim: whenever \<open>ttyname_r\<close> returns 0, the buffer holds a NUL-terminated
  canonical path, for every positive capacity. The code at capacity 10, descriptor 0, a
  terminal: it returns 0, the ten bytes of the buffer are \<open>/dev/stdin\<close>, and none of
  them is \<open>NUL\<close>; the byte after them is the caller's old one.
\<close>

theorem ttyname_r_success_unterminated:
  "fst (ttyname_r (0, tty_all WASI_BOOL_TRUE) 0 10 st0) = 0 \<and>
   map (name (snd (ttyname_r (0, tty_all WASI_BOOL_TRUE) 0 10 st0))) [0..<10] = ''/dev/stdin'' \<and>
   c_str (name (snd (ttyname_r (0, tty_all WASI_BOOL_TRUE) 0 10 st0))) 10 = None \<and>
   name (snd (ttyname_r (0, tty_all WASI_BOOL_TRUE) 0 10 st0)) 10 = CHR ''x''"
  by (simp add: ttyname_r_def tty_all_def WASI_BOOL_TRUE_def st0_def strncpy_def c_str_def
      NUL_def upt_rec eval_nat_numeral)

text \<open>
  C5. The claim: a call with capacity 0 fails and writes nothing. The code at
  \<open>ttyname_r(1, buf, 0)\<close> with standard output a terminal: nothing is written, and the
  call returns 0, the value of success.
\<close>

theorem ttyname_r_capacity_zero_succeeds:
  "fst (ttyname_r (0, tty_all WASI_BOOL_TRUE) 1 0 st0) = 0 \<and>
   snd (ttyname_r (0, tty_all WASI_BOOL_TRUE) 1 0 st0) = st0"
  by (simp add: ttyname_r_def tty_all_def WASI_BOOL_TRUE_def strncpy_zero)

text \<open>
  C6. For every descriptor, capacity and host reply, \<open>ttyname_r\<close> writes at most
  \<open>capacity\<close> bytes into the buffer: every byte at an offset from the capacity on is
  the byte the caller had there.
\<close>

theorem ttyname_r_writes_within_capacity:
  "sz \<le> i \<Longrightarrow> name (snd (ttyname_r host fd sz s)) i = name s i"
  by (simp add: ttyname_r_def Let_def strncpy_frame)

theorem ttyname_r_writes_within_capacity_witness:
  "(5::nat) \<le> 7 \<and>
   name (snd (ttyname_r (0, tty_all WASI_BOOL_TRUE) 0 5 st0)) 7 = name st0 7 \<and>
   map (name (snd (ttyname_r (0, tty_all WASI_BOOL_TRUE) 0 5 st0))) [0..<8] = ''/dev/xxx''"
  using ttyname_r_writes_within_capacity [of 5 7 "(0, tty_all WASI_BOOL_TRUE)" 0 st0]
  by (simp add: ttyname_r_def tty_all_def WASI_BOOL_TRUE_def st0_def strncpy_def upt_rec)

text \<open>
  C7. For every capacity, when the host query succeeds, \<open>ttyname_r\<close> returns \<open>ENOTTY\<close>
  if the descriptor is outside 0, 1, 2, whatever the flags, and also if the descriptor
  is 0, 1 or 2 and its flag is false. Nothing is written.
\<close>

theorem ttyname_r_not_a_terminal:
  "fd \<notin> {0, 1, 2}
   \<or> fd = 0 \<and> stdin_tty tty = WASI_BOOL_FALSE
   \<or> fd = 1 \<and> stdout_tty tty = WASI_BOOL_FALSE
   \<or> fd = 2 \<and> stderr_tty tty = WASI_BOOL_FALSE
   \<Longrightarrow> ttyname_r (0, tty) fd sz s = (ENOTTY, s)"
  by (auto simp add: ttyname_r_def WASI_BOOL_TRUE_def WASI_BOOL_FALSE_def)

theorem ttyname_r_not_a_terminal_witness:
  "(3::int) \<notin> {0, 1, 2} \<and>
   ttyname_r (0, tty_all WASI_BOOL_TRUE) 3 64 st0 = (ENOTTY, st0) \<and>
   stdout_tty (tty_all WASI_BOOL_FALSE) = WASI_BOOL_FALSE \<and>
   ttyname_r (0, tty_all WASI_BOOL_FALSE) 1 64 st0 = (ENOTTY, st0)"
  using ttyname_r_not_a_terminal [of 3 "tty_all WASI_BOOL_TRUE" 64 st0]
    ttyname_r_not_a_terminal [of 1 "tty_all WASI_BOOL_FALSE" 64 st0]
  by (simp add: tty_all_def)


text \<open>
  C10. For every descriptor and capacity, when the host terminal query \<open>__wasi_tty_get\<close>
  returns a nonzero code \<open>r\<close>, \<open>ttyname_r\<close> returns 0, sets \<open>errno\<close> to \<open>r\<close> and leaves
  the caller's buffer (and everything else) as it was.
\<close>

theorem ttyname_r_host_failure:
  "r \<noteq> 0 \<Longrightarrow> ttyname_r (r, tty) fd sz s = (0, s\<lparr>errno := r\<rparr>)"
  by (simp add: ttyname_r_def)

theorem ttyname_r_host_failure_witness:
  "(8::int) \<noteq> 0 \<and> ttyname_r (8, tty_all WASI_BOOL_TRUE) 0 64 st0 = (0, st0\<lparr>errno := 8\<rparr>)
   \<and> name (snd (ttyname_r (8, tty_all WASI_BOOL_TRUE) 0 64 st0)) = name st0"
  using ttyname_r_host_failure [of 8 "tty_all WASI_BOOL_TRUE" 0 64 st0] by simp

subsection \<open>\<open>pthread_setname_np\<close>\<close>

text \<open>
  C8. On a constrained host (the flag \<open>__wasilibc_unmodified_upstream\<close> not defined),
  \<open>pthread_setname_np\<close> returns 0 for every thread handle and every name, also one
  longer than 15 characters, and the state after the call is the state before it: no
  host call is issued and nothing is written.
\<close>

theorem pthread_setname_np_constrained:
  "pthread_setname_np False h self thread nm s = (0, s)"
  by (simp add: pthread_setname_np_def)

lemma pthread_setname_np_constrained_long_name:
  "pthread_setname_np False host_ok \<lparr>tid = 1\<rparr> \<lparr>tid = 42\<rparr>
     ''a-name-that-is-definitely-too-long'' ts0 = (0, ts0)"
  by (simp add: pthread_setname_np_def)

text \<open>
  C9. On a capability-rich host (the flag defined), \<open>pthread_setname_np\<close> returns
  \<open>ERANGE\<close> for every name longer than 15 characters, with no host call issued and the
  state as it was. For a name within the bound it issues the naming call, \<open>prctl\<close> for
  the calling thread and \<open>open\<close>, \<open>write\<close>, \<open>close\<close> on the thread's \<open>comm\<close> file for
  another one, and returns 0 when the calls succeed.
\<close>

theorem pthread_setname_np_upstream_range:
  "(15 < length nm \<longrightarrow>
      pthread_setname_np True h self thread nm s = (ERANGE, s))
   \<and> (length nm \<le> 15 \<and> thread = self \<and> prctl_ret h = 0 \<longrightarrow>
      pthread_setname_np True h self thread nm s =
        (0, s\<lparr>calls := calls s @ [Prctl_set_name nm]\<rparr>))
   \<and> (length nm \<le> 15 \<and> thread \<noteq> self \<and> 0 \<le> open_ret h \<and> 0 \<le> write_ret h \<longrightarrow>
      fst (pthread_setname_np True h self thread nm s) = 0 \<and>
      calls (snd (pthread_setname_np True h self thread nm s)) =
        calls s @ [Open_wronly (snprintf_comm sizeof_f (tid thread)),
                   Write (open_ret h) nm, Close (open_ret h)])"
  by (simp add: pthread_setname_np_def pthread_setname_np_upstream_def strnlen_def
      sys_prctl_def sys_open_def sys_write_def sys_close_def Let_def)

theorem pthread_setname_np_upstream_range_witness:
  "15 < length ''a-name-that-is-definitely-too-long''
   \<and> pthread_setname_np True host_ok \<lparr>tid = 1\<rparr> \<lparr>tid = 42\<rparr>
        ''a-name-that-is-definitely-too-long'' ts0 = (ERANGE, ts0)
   \<and> length ''worker'' \<le> 15 \<and> prctl_ret host_ok = 0
   \<and> pthread_setname_np True host_ok \<lparr>tid = 1\<rparr> \<lparr>tid = 1\<rparr> ''worker'' ts0 =
        (0, ts0\<lparr>calls := [Prctl_set_name ''worker'']\<rparr>)
   \<and> \<lparr>tid = 42\<rparr> \<noteq> \<lparr>tid = 1\<rparr> \<and> 0 \<le> open_ret host_ok \<and> 0 \<le> write_ret host_ok
   \<and> fst (pthread_setname_np True host_ok \<lparr>tid = 1\<rparr> \<lparr>tid = 42\<rparr> ''worker'' ts0) = 0
   \<and> calls (snd (pthread_setname_np True host_ok \<lparr>tid = 1\<rparr> \<lparr>tid = 42\<rparr> ''worker'' ts0)) =
        [Open_wronly (snprintf_comm sizeof_f 42), Write 3 ''worker'', Close 3]"
  using pthread_setname_np_upstream_range
          [of "''a-name-that-is-definitely-too-long''" host_ok "\<lparr>tid = 1\<rparr>" "\<lparr>tid = 42\<rparr>" ts0]
        pthread_setname_np_upstream_range
          [of "''worker''" host_ok "\<lparr>tid = 1\<rparr>" "\<lparr>tid = 1\<rparr>" ts0]
        pthread_setname_np_upstream_range
          [of "''worker''" host_ok "\<lparr>tid = 1\<rparr>" "\<lparr>tid = 42\<rparr>" ts0]
  by (simp add: host_ok_def ts0_def)

lemma snprintf_comm_42: "snprintf_comm sizeof_f 42 = ''/proc/self/task/42/comm''"
  by code_simp

subsection \<open>The signal set\<close>

lemma NSIG_WORDS_eq: "NSIG_WORDS = 2"
  by (simp add: NSIG_WORDS_def NSIG_def NSIG_BPW_def)

lemma sigset_bits_eq: "NSIG_WORDS * NSIG_BPW = 64"
  by (simp add: NSIG_WORDS_def NSIG_def NSIG_BPW_def)

lemma sigset_zero_length: "length (sig sigset_zero) = NSIG_WORDS"
  by (simp add: sigset_zero_def)

lemma sigset_zero_eq: "sigset_zero = Sigset_t [0, 0]"
  by (simp add: sigset_zero_def NSIG_WORDS_eq numeral_2_eq_2)

lemma test_bit_word_exp: "((w::ulong) AND 2 ^ m = 0) = (\<not> bit w m)"
  by (simp add: and_exp_eq_0_iff_not_bit)

lemma bit_or_exp: "m < 32 \<Longrightarrow> bit ((w::ulong) OR 2 ^ m) k = (bit w k \<or> k = m)"
  by (auto simp add: bit_or_iff bit_exp_iff)

text \<open>
  Setting a bit of a set of the right size changes the answer for that bit only: no
  other bit is disturbed.
\<close>

lemma sigset_set_test:
  assumes "i < NSIG_WORDS * NSIG_BPW" "j < NSIG_WORDS * NSIG_BPW"
    and "length (sig s) = NSIG_WORDS"
  shows "Option.bind (sigset_set s i) (\<lambda>t. sigset_test t j) =
         Some (j = i \<or> sigset_test s j = Some True)"
proof -
  have wi: "i div NSIG_BPW < NSIG_WORDS" and wj: "j div NSIG_BPW < NSIG_WORDS"
    using assms by (simp_all add: NSIG_BPW_def less_mult_imp_div_less)
  have mi: "i mod NSIG_BPW < 32" and mj: "j mod NSIG_BPW < 32"
    by (simp_all add: NSIG_BPW_def)
  show ?thesis
  proof (cases "i div NSIG_BPW = j div NSIG_BPW")
    case True
    have "(i mod NSIG_BPW = j mod NSIG_BPW) = (i = j)"
      using True by (metis div_mult_mod_eq)
    then show ?thesis
      using wi wj mi mj True assms(3)
      by (auto simp add: sigset_set_def sigset_test_def Let_def test_bit_word_exp bit_or_exp)
  next
    case False
    then have "i \<noteq> j" by auto
    then show ?thesis
      using wi wj mi mj False assms(3)
      by (auto simp add: sigset_set_def sigset_test_def Let_def test_bit_word_exp)
  qed
qed

lemma sigset_zero_test:
  "j < NSIG_WORDS * NSIG_BPW \<Longrightarrow> sigset_test sigset_zero j = Some False"
  by (simp add: sigset_test_def sigset_zero_def Let_def NSIG_BPW_def less_mult_imp_div_less)

text \<open>
  C3, as stated: the type has room for 65 bits rounded up to whole words, so that every
  bit \<open>i\<close> with \<open>0 \<le> i < 65\<close> can be set and tested. It fails at \<open>i = 64\<close>: the array
  has \<open>65 / 32 = 2\<close> words, 64 bits, where rounding up would give 3, and bit 64 lies in
  a word with index 2, beyond the array.
\<close>

theorem sigset_bit_64_out_of_range:
  "(64::nat) < NSIG \<and> \<not> 64 div NSIG_BPW < NSIG_WORDS
   \<and> sigset_set sigset_zero 64 = None \<and> sigset_test sigset_zero 64 = None
   \<and> NSIG_WORDS = 2 \<and> NSIG_WORDS * NSIG_BPW = 64
   \<and> (NSIG + NSIG_BPW - 1) div NSIG_BPW = 3"
  by (simp add: NSIG_WORDS_def NSIG_def NSIG_BPW_def sigset_set_def sigset_test_def)

text \<open>
  C3, amended: the type has a constant width of \<open>_NSIG_WORDS = 65 / 32 = 2\<close> words of 32
  bits (65 rounded down to whole words, 64 bits). For every \<open>i\<close> and \<open>j\<close> below 64,
  setting bit \<open>i\<close> of a fresh zero set succeeds, and testing bit \<open>j\<close> of the result
  yields true when \<open>j = i\<close> and false otherwise.
\<close>

theorem sigset_set_then_test:
  "i < 64 \<Longrightarrow> j < 64 \<Longrightarrow>
   length (sig sigset_zero) = 2 \<and>
   Option.bind (sigset_set sigset_zero i) (\<lambda>t. sigset_test t j) = Some (j = i)"
proof -
  assume i: "i < 64" and j: "j < 64"
  have "Option.bind (sigset_set sigset_zero i) (\<lambda>t. sigset_test t j)
          = Some (j = i \<or> sigset_test sigset_zero j = Some True)"
    using i j by (intro sigset_set_test) (simp_all only: sigset_bits_eq sigset_zero_length)
  moreover have "sigset_test sigset_zero j = Some False"
    using j by (intro sigset_zero_test) (simp only: sigset_bits_eq)
  ultimately show ?thesis
    using sigset_zero_length by (simp add: NSIG_WORDS_eq)
qed

theorem sigset_set_then_test_witness:
  "(5::nat) < 64 \<and> (63::nat) < 64 \<and>
   Option.bind (sigset_set sigset_zero 5) (\<lambda>t. sigset_test t 5) = Some True \<and>
   Option.bind (sigset_set sigset_zero 5) (\<lambda>t. sigset_test t 63) = Some False"
  using sigset_set_then_test [of 5 5] sigset_set_then_test [of 5 63]
  by simp

lemma sigset_set_63: "sigset_set sigset_zero 63 = Some (Sigset_t [0, 0x80000000])"
  by code_simp

subsection \<open>\<open>pselect\<close>\<close>

lemma deliver_unblocked_simps [simp]:
  "mask (deliver_unblocked p) = mask p" "waiting (deliver_unblocked p) = waiting p"
  by (simp_all add: deliver_unblocked_def)

lemma raise_sig_simps [simp]:
  "mask (raise_sig n p) = mask p" "waiting (raise_sig n p) = waiting p"
  by (simp_all add: raise_sig_def)

text \<open>A signal the active mask blocks is not delivered when it is raised.\<close>

lemma raise_sig_held:
  "filter (blocked (mask p)) (delivered (raise_sig n p)) =
   filter (blocked (mask p)) (delivered p)"
  by (simp add: raise_sig_def deliver_unblocked_def)

lemma wait_states_not_Nil: "wait_states sigs q \<noteq> []"
  by (cases sigs) simp_all

text \<open>
  Whatever signals the host raises during the wait, every state of the wait has the
  mask and the waiting flag of the first one, and no signal that mask blocks is
  delivered.
\<close>

lemma wait_states_inv:
  "x \<in> set (wait_states sigs q) \<Longrightarrow>
   waiting x = waiting q \<and> mask x = mask q \<and>
   filter (blocked (mask q)) (delivered x) = filter (blocked (mask q)) (delivered q)"
proof (induction sigs arbitrary: q)
  case Nil
  then show ?case by simp
next
  case (Cons n ns)
  show ?case
  proof (cases "x = q")
    case True
    then show ?thesis by simp
  next
    case False
    with Cons.prems have "x \<in> set (wait_states ns (raise_sig n q))" by simp
    from Cons.IH [OF this] show ?thesis by (simp add: raise_sig_held)
  qed
qed

lemma pselect_begin_Some:
  "waiting (pselect_begin (Some m) p)" "mask (pselect_begin (Some m) p) = m"
  "filter (blocked m) (delivered (pselect_begin (Some m) p)) = filter (blocked m) (delivered p)"
  by (simp_all add: pselect_begin_def deliver_unblocked_def)

lemma pselect_end_simps:
  "mask (pselect_end saved err q) = saved" "\<not> waiting (pselect_end saved err q)"
  by (simp_all add: pselect_end_def)

lemma pselect_run_Some:
  "\<exists>ws. pselect_run (Some m) sigs err p = p # ws @ [last (pselect_run (Some m) sigs err p)]
     \<and> ws \<noteq> []
     \<and> (\<forall>q\<in>set ws. waiting q \<and> mask q = m
            \<and> filter (blocked m) (delivered q) = filter (blocked m) (delivered p))
     \<and> mask (last (pselect_run (Some m) sigs err p)) = mask p
     \<and> \<not> waiting (last (pselect_run (Some m) sigs err p))"
proof -
  let ?ws = "wait_states sigs (pselect_begin (Some m) p)"
  have "\<forall>q\<in>set ?ws. waiting q \<and> mask q = m
            \<and> filter (blocked m) (delivered q) = filter (blocked m) (delivered p)"
    using wait_states_inv [of _ sigs "pselect_begin (Some m) p"]
    by (simp add: pselect_begin_Some)
  then show ?thesis
    by (intro exI [of _ ?ws])
      (simp add: pselect_run_def Let_def wait_states_not_Nil pselect_end_simps)
qed

text \<open>A call whose wait does not end does not return.\<close>

lemma pselect_blocks:
  "\<not> wait_ends wake nfds rfds wfds efds timeout \<Longrightarrow>
   pselect wake sigs nfds rfds wfds efds timeout sigmask p = None"
  by (cases wake) (simp_all add: pselect_def wait_ends_def Let_def)

text \<open>
  The mask argument shows in the result. Signals 2 and 3 are raised during the wait:
  under the mask \<open>m1\<close> signal 2 is held back until the return, and with a null mask it is
  delivered first.
\<close>

lemma pselect_mask_observable:
  "map_option (\<lambda>out. (ret out, readfds out, delivered (after out), map pending (trace out)))
     (pselect (Fds_ready (\<lambda>fd. fd = 3)) [2, 3] 4 (Some [3, 5]) None None None (Some m1) p0)
     = Some (1, Some [3], [3, 2], [[], [], [2], [2], []])
   \<and> map_option (\<lambda>out. (ret out, readfds out, delivered (after out), map pending (trace out)))
     (pselect (Fds_ready (\<lambda>fd. fd = 3)) [2, 3] 4 (Some [3, 5]) None None None None p0)
     = Some (1, Some [3], [2, 3], [[], [], [], [], []])"
  by code_simp

lemma pselect_host_error:
  "map_option (\<lambda>out. (ret out, readfds out, sel_errno (after out), mask (after out) = mask p0))
     (pselect (Host_error 8) [2, 3] 4 (Some [3, 5]) None None None (Some m1) p0)
     = Some (- 1, Some [3, 5], 8, True)"
  by code_simp

text \<open>
  C2. For every \<open>pselect\<close> call with a non-null signal mask \<open>m\<close> whose wait ends, by
  readiness, by timeout or by an error, the call returns and the mask active after it
  is the mask active before it. From the call to the return the caller goes through the
  state at the call, then one or more states of the wait, then the state at the return.
  In every state of the wait the caller waits with \<open>m\<close> installed, and no signal that
  \<open>m\<close> blocks has been delivered; in the state at the return it does not wait and has
  the old mask. So there is no state with \<open>m\<close> installed and the wait not begun, and
  none with the wait over and \<open>m\<close> still installed: the mask is installed in the step
  that begins the wait and put back in the step that ends it.
\<close>

theorem pselect_restores_mask:
  assumes "wait_ends wake nfds rfds wfds efds timeout"
  shows "\<exists>out ws. pselect wake sigs nfds rfds wfds efds timeout (Some m) p = Some out
           \<and> mask (after out) = mask p
           \<and> \<not> waiting (after out)
           \<and> trace out = p # ws @ [after out] \<and> ws \<noteq> []
           \<and> (\<forall>q\<in>set ws. waiting q \<and> mask q = m
                 \<and> filter (blocked m) (delivered q) = filter (blocked m) (delivered p))"
proof (cases wake)
  case (Fds_ready ready)
  with assms pselect_run_Some [of m sigs None p] show ?thesis
    by (auto simp add: pselect_def wait_ends_def Let_def pselect_return_def)
next
  case Timer_fired
  with assms pselect_run_Some [of m sigs None p] show ?thesis
    by (auto simp add: pselect_def wait_ends_def pselect_return_def)
next
  case (Host_error err)
  with pselect_run_Some [of m sigs "Some err" p] show ?thesis
    by (auto simp add: pselect_def pselect_return_def)
qed

theorem pselect_restores_mask_witness:
  "wait_ends (Fds_ready (\<lambda>fd. fd = 3)) 4 (Some [3, 5]) None None None
   \<and> map_option (\<lambda>out. (mask (after out), waiting (after out), hd (trace out)))
        (pselect (Fds_ready (\<lambda>fd. fd = 3)) [2, 3] 4 (Some [3, 5]) None None None (Some m1) p0)
      = Some (mask p0, False, p0)
   \<and> wait_ends Timer_fired 4 (Some [3, 5]) None None (Some \<lparr>tv_sec = 1, tv_nsec = 0\<rparr>)
   \<and> map_option (\<lambda>out. (mask (after out), waiting (after out), hd (trace out)))
        (pselect Timer_fired [] 4 (Some [3, 5]) None None
           (Some \<lparr>tv_sec = 1, tv_nsec = 0\<rparr>) (Some m1) p0)
      = Some (mask p0, False, p0)
   \<and> wait_ends (Host_error 8) 4 (Some [3, 5]) None None None
   \<and> map_option (\<lambda>out. (mask (after out), waiting (after out), hd (trace out)))
        (pselect (Host_error 8) [2] 4 (Some [3, 5]) None None None (Some m1) p0)
      = Some (mask p0, False, p0)"
proof -
  have w1: "wait_ends (Fds_ready (\<lambda>fd. fd = 3)) 4 (Some [3, 5]) None None None"
    by (simp add: wait_ends_def ready_subset_def fd_count_def)
  have w2: "wait_ends Timer_fired 4 (Some [3, 5]) None None (Some \<lparr>tv_sec = 1, tv_nsec = 0\<rparr>)"
    by (simp add: wait_ends_def)
  have w3: "wait_ends (Host_error 8) 4 (Some [3, 5]) None None None"
    by (simp add: wait_ends_def)
  show ?thesis
    using w1 w2 w3
      pselect_restores_mask [OF w1, of "[2, 3]" m1 p0]
      pselect_restores_mask [OF w2, of "[]" m1 p0]
      pselect_restores_mask [OF w3, of "[2]" m1 p0]
    by auto
qed

text \<open>The states of one run, with signals 2 and 3 raised during the wait.\<close>

lemma pselect_run_example:
  "map_option (\<lambda>out. (ret out, readfds out, map (\<lambda>q. mask q = m1) (trace out),
                      map waiting (trace out), map delivered (trace out)))
        (pselect (Fds_ready (\<lambda>fd. fd = 3)) [2, 3] 4 (Some [3, 5]) None None None (Some m1) p0)
      = Some (1, Some [3], [False, True, True, True, False],
              [False, True, True, True, False], [[], [], [], [3], [3, 2]])"
  by code_simp

end
